theory Spec2Isabelle
  imports Main "HOL-Library.Word"
begin

section \<open>Certificate rotation planner (pkg/capr/planner/certificaterotation.go)\<close>

text \<open>
  A shallow embedding of the certificate rotation code of the planner: the rotation
  trigger \<open>shouldRotate\<close>, the service relevance filter \<open>shouldRotateEntry\<close>, the
  wildcard test \<open>rotationContainsService\<close>, the plan composer
  \<open>rotateCertificatesPlan\<close> and the orchestrator \<open>rotateCertificates\<close>.
  Calls to \<open>logrus\<close> only write log lines and are left out.
\<close>

subsection \<open>Data model\<close>

type_synonym int64 = "64 word"

text \<open>\<open>rkev1.RotateCertificates\<close>: the rotation request.\<close>

record RotateCertificates =
  Generation :: int64
  Services :: "string list"

text \<open>
  \<open>rkev1.RKEControlPlane\<close> with the fields this file reads. The pointer field
  \<open>Spec.RotateCertificates\<close> is an option: \<open>None\<close> is \<open>nil\<close>.
\<close>

record RKEControlPlaneSpec =
  KubernetesVersion :: string
  SpecRotateCertificates :: "RotateCertificates option"

record RKEControlPlaneStatus =
  Initialized :: bool
  CertificateRotationGeneration :: int64

record RKEControlPlane =
  Spec :: RKEControlPlaneSpec
  Status :: RKEControlPlaneStatus

text \<open>
  Modelled from the spec: the type \<open>planEntry\<close> and the role classifier (\<open>isEtcd\<close>,
  \<open>isControlPlane\<close>, \<open>isWorker\<close>, \<open>isOnlyWorker\<close>) are declared in another file of
  the package. The spec's NodeEntry is a node with an identity and a set of role flags
  (etcd / control-plane / worker), and its role classifier is a set of pure predicates
  on them. The plan composer of the spec opposes a worker-only node to a node that runs
  server components, so a worker-only node is one with neither the etcd nor the
  control-plane role.
\<close>

record planEntry =
  MachineName :: string
  etcdRole :: bool
  controlPlaneRole :: bool
  workerRole :: bool

definition isEtcd :: "planEntry \<Rightarrow> bool" where
  "isEtcd entry = etcdRole entry"

definition isControlPlane :: "planEntry \<Rightarrow> bool" where
  "isControlPlane entry = controlPlaneRole entry"

definition isWorker :: "planEntry \<Rightarrow> bool" where
  "isWorker entry = workerRole entry"

definition isOnlyWorker :: "planEntry \<Rightarrow> bool" where
  "isOnlyWorker entry = (\<not> isEtcd entry \<and> \<not> isControlPlane entry)"

subsection \<open>Rotation trigger\<close>

text \<open>\<open>shouldRotate\<close>: true if the cluster is ready and the generation is stale.\<close>

definition shouldRotate :: "RKEControlPlane \<Rightarrow> bool" where
  "shouldRotate cp =
     (case SpecRotateCertificates (Spec cp) of
        None \<Rightarrow> False
      | Some rotation \<Rightarrow>
          if Initialized (Status cp) \<noteq> True then False
          else CertificateRotationGeneration (Status cp) \<noteq> Generation rotation)"

subsection \<open>Service relevance filter\<close>

text \<open>
  The Go map \<open>relevantServices\<close> is used as a set of keys. Each role block stores its
  keys in the order of the source.
\<close>

definition relevantServices :: "planEntry \<Rightarrow> string set" where
  "relevantServices entry =
     (let m0 = {};
          m1 = (if isWorker entry
                then fold insert
                  [''rke2-server'', ''k3s-server'', ''api-server'', ''kubelet'',
                   ''kube-proxy'', ''auth-proxy''] m0
                else m0);
          m2 = (if isControlPlane entry
                then fold insert
                  [''rke2-server'', ''k3s-server'', ''api-server'', ''kubelet'',
                   ''kube-proxy'', ''auth-proxy'', ''controller-manager'', ''scheduler'',
                   ''rke2-controller'', ''k3s-controller'', ''admin'',
                   ''cloud-controller''] m1
                else m1);
          m3 = (if isEtcd entry
                then fold insert
                  [''etcd'', ''kubelet'', ''k3s-server'', ''rke2-server''] m2
                else m2)
      in m3)"

text \<open>The final loop over \<open>rotation.Services\<close>: the first key found returns true.\<close>

fun anyRelevant :: "string set \<Rightarrow> string list \<Rightarrow> bool" where
  "anyRelevant rs [] = False"
| "anyRelevant rs (s # ss) = (if s \<in> rs then True else anyRelevant rs ss)"

definition shouldRotateEntry :: "RotateCertificates \<Rightarrow> planEntry \<Rightarrow> bool" where
  "shouldRotateEntry rotation entry =
     (if length (Services rotation) = 0 then True
      else anyRelevant (relevantServices entry) (Services rotation))"

text \<open>
  The fixed mapping in the words of the spec, to compare with the map the code builds:
  the server-runtime services are \<open>rke2-server\<close> and \<open>k3s-server\<close>, the
  runtime-controller services are \<open>rke2-controller\<close> and \<open>k3s-controller\<close>.
\<close>

definition workerServices :: "string set" where
  "workerServices =
     {''rke2-server'', ''k3s-server'', ''api-server'', ''kubelet'', ''kube-proxy'',
      ''auth-proxy''}"

definition controlPlaneExtraServices :: "string set" where
  "controlPlaneExtraServices =
     {''controller-manager'', ''scheduler'', ''rke2-controller'', ''k3s-controller'',
      ''admin'', ''cloud-controller''}"

definition etcdServices :: "string set" where
  "etcdServices = {''etcd'', ''kubelet'', ''k3s-server'', ''rke2-server''}"

definition specRelevantSet :: "planEntry \<Rightarrow> string set" where
  "specRelevantSet entry =
     (if isWorker entry then workerServices else {}) \<union>
     (if isControlPlane entry then workerServices \<union> controlPlaneExtraServices else {}) \<union>
     (if isEtcd entry then etcdServices else {})"

text \<open>
  \<open>rotationContainsService\<close>: searches \<open>rotation.Services\<close> for the service; an
  empty slice contains every service, a nil rotation none.
\<close>

fun containsService :: "string list \<Rightarrow> string \<Rightarrow> bool" where
  "containsService [] service = False"
| "containsService (desiredService # rest) service =
     (if desiredService = service then True else containsService rest service)"

definition rotationContainsService :: "RotateCertificates option \<Rightarrow> string \<Rightarrow> bool" where
  "rotationContainsService rotation service =
     (case rotation of
        None \<Rightarrow> False
      | Some r \<Rightarrow>
          if length (Services r) = 0 then True
          else containsService (Services r) service)"

subsection \<open>Plans, errors and collaborators\<close>

text \<open>
  \<open>plan.OneTimeInstruction\<close>, \<open>plan.File\<close>, \<open>plan.NodePlan\<close> and \<open>plan.Secret\<close>
  with the fields this file sets or reads; a composite literal leaves every other field
  at its zero value.
\<close>

record OneTimeInstruction =
  Name :: string
  Command :: string
  Args :: "string list"

record File =
  Content :: string
  Path :: string

record NodePlan =
  Files :: "File list"
  Instructions :: "OneTimeInstruction list"

record Secret =
  ServerToken :: string
  AgentToken :: string

text \<open>
  A Go \<open>error\<close> is \<open>err option\<close>, \<open>None\<close> for \<open>nil\<close>. \<open>errWaiting\<close> is the package's
  "retry later" error type; any other error is \<open>errOther\<close> with its message.
\<close>

datatype err = errWaiting string | errOther string

text \<open>
  The methods of \<open>Planner\<close> and the store operation \<open>assignAndCheckPlan\<close> are declared
  in other files of the package. They are parameters here: each takes the state of the
  outside world (caches, the plan store, the CAPI cluster) and returns its results as
  the Go function does, with the state it leaves. The third result of
  \<open>findInitNode\<close> is discarded by the caller and left out.
\<close>

record ('w, 'plan, 'cfg) Planner =
  findInitNode :: "'w \<Rightarrow> RKEControlPlane \<Rightarrow> 'plan \<Rightarrow> (bool \<times> string \<times> err option) \<times> 'w"
  generatePlanWithConfigFiles ::
    "'w \<Rightarrow> RKEControlPlane \<Rightarrow> Secret \<Rightarrow> planEntry \<Rightarrow> string \<Rightarrow> bool \<Rightarrow>
       (NodePlan \<times> (string \<rightharpoonup> 'cfg) \<times> string \<times> err option) \<times> 'w"
  assignAndCheckPlan ::
    "'w \<Rightarrow> string \<Rightarrow> planEntry \<Rightarrow> NodePlan \<Rightarrow> string \<Rightarrow> int \<Rightarrow> int \<Rightarrow> err option \<times> 'w"
  pauseCAPICluster :: "'w \<Rightarrow> RKEControlPlane \<Rightarrow> bool \<Rightarrow> err option \<times> 'w"

text \<open>
  The pure helpers and constants of the packages \<open>planner\<close> and \<open>capr\<close> that this file
  uses and does not declare, and the standard base64 encoder, as parameters. The value
  \<open>config[k]\<close> of the argument map is an option: \<open>None\<close> for a missing key.
\<close>

record ('plan, 'cfg) Deps =
  collect :: "'plan \<Rightarrow> (planEntry \<Rightarrow> bool) \<Rightarrow> planEntry list"
  anyRole :: "planEntry \<Rightarrow> bool"
  getArgValue :: "'cfg option \<Rightarrow> string \<Rightarrow> string \<Rightarrow> string"
  generateManifestRemovalInstruction :: "string \<Rightarrow> planEntry \<Rightarrow> bool \<times> OneTimeInstruction"
  GetRuntime :: "string \<Rightarrow> string"
  GetRuntimeAgentUnit :: "string \<Rightarrow> string"
  GetRuntimeServerUnit :: "string \<Rightarrow> string"
  RuntimeRKE2 :: string
  KubeControllerManagerArg :: string
  KubeSchedulerArg :: string
  CertDirArgument :: string
  TLSCertFileArgument :: string
  DefaultKubeControllerManagerCert :: string
  EncodeToString :: "string \<Rightarrow> string"

subsection \<open>Library functions\<close>

text \<open>\<open>strconv.FormatInt(i, 10)\<close>: the decimal digits, with a minus sign below zero.\<close>

fun natToString :: "nat \<Rightarrow> string" where
  "natToString n =
     (if n < 10 then [''0123456789'' ! n]
      else natToString (n div 10) @ [''0123456789'' ! (n mod 10)])"

declare natToString.simps [simp del]

definition FormatInt :: "int64 \<Rightarrow> string" where
  "FormatInt i =
     (if sint i < 0 then ''-'' @ natToString (nat (- sint i)) else natToString (nat (sint i)))"

text \<open>
  \<open>strings.ReplaceAll(s, old, new)\<close> on byte strings: the non-overlapping occurrences
  of \<open>old\<close> are replaced from the left; an empty \<open>old\<close> matches before every byte and
  at the end.
\<close>

function replaceFrom :: "string \<Rightarrow> string \<Rightarrow> string \<Rightarrow> string" where
  "replaceFrom [] old new = []"
| "replaceFrom (c # cs) old new =
     (if old \<noteq> [] \<and> take (length old) (c # cs) = old
      then new @ replaceFrom (drop (length old) (c # cs)) old new
      else c # replaceFrom cs old new)"
  by pat_completeness auto
termination
  by (relation "measure (\<lambda>(s, old, new). length s)") (auto simp: neq_Nil_conv)

definition ReplaceAll :: "string \<Rightarrow> string \<Rightarrow> string \<Rightarrow> string" where
  "ReplaceAll s old new =
     (if old = [] then new @ concat (map (\<lambda>c. c # new) s) else replaceFrom s old new)"

subsection \<open>Plan composer\<close>

definition idempotentRotateScript :: string where
  \<open>idempotentRotateScript = concat (map (\<lambda>l. l @ ''\<newline>'')
     ['''',
      ''#!/bin/sh'',
      '''',
      ''currentGeneration=""'',
      ''targetGeneration=$2'',
      ''runtime=$1'',
      ''shift'',
      ''shift'',
      '''',
      ''dataRoot="/var/lib/rancher/$runtime/certificate_rotation"'',
      ''generationFile="$dataRoot/generation"'',
      '''',
      ''currentGeneration=$(cat "$generationFile" || echo "")'',
      '''',
      ''if [ "$currentGeneration" != "$targetGeneration" ]; then'',
      ''  $runtime certificate rotate  $@'',
      ''else'',
      CHR 0x09 # ''echo "certificates have already been rotated to the current generation."'',
      ''fi'',
      '''',
      ''mkdir -p $dataRoot'',
      ''echo $targetGeneration > "$generationFile"''])\<close>

text \<open>The loop \<open>args = append(args, "-s", service)\<close> over \<open>rotation.Services\<close>.\<close>

fun appendServiceArgs :: "string list \<Rightarrow> string list \<Rightarrow> string list" where
  "appendServiceArgs args [] = args"
| "appendServiceArgs args (service # rest) = appendServiceArgs (args @ [''-s'', service]) rest"

text \<open>The instructions appended for the worker-only node and at the end of the plan.\<close>

definition restartInstruction :: "string \<Rightarrow> OneTimeInstruction" where
  "restartInstruction unit =
     \<lparr>Name = ''restart'', Command = ''systemctl'', Args = [''restart'', unit]\<rparr>"

definition rotateInstruction :: "string list \<Rightarrow> OneTimeInstruction" where
  "rotateInstruction args = \<lparr>Name = ''rotate certificates'', Command = ''sh'', Args = args\<rparr>"

text \<open>
  The block of \<open>rotateCertificatesPlan\<close> for the controller manager (lines 152 to 183):
  the instructions it appends.
\<close>

definition kcmInstructions ::
  "('plan, 'cfg) Deps \<Rightarrow> string \<Rightarrow> RotateCertificates \<Rightarrow> (string \<rightharpoonup> 'cfg) \<Rightarrow>
     OneTimeInstruction list" where
  "kcmInstructions d runtime rotation config =
     (if rotationContainsService (Some rotation) ''controller-manager'' then
        (let kcmCertDir =
               getArgValue d (config (KubeControllerManagerArg d)) (CertDirArgument d) ''=''
         in if kcmCertDir \<noteq> '''' \<and>
               getArgValue d (config (KubeControllerManagerArg d)) (TLSCertFileArgument d) ''=''
                 = ''''
            then
              [\<lparr>Name = ''remove kube-controller-manager cert for regeneration'',
                Command = ''rm'',
                Args = [''-f'', kcmCertDir @ ''/'' @ DefaultKubeControllerManagerCert d]\<rparr>,
               \<lparr>Name = ''remove kube-controller-manager key for regeneration'',
                Command = ''rm'',
                Args = [''-f'', kcmCertDir @ ''/'' @
                          ReplaceAll (DefaultKubeControllerManagerCert d) ''.crt'' ''.key'']\<rparr>]
              @ (if runtime = RuntimeRKE2 d
                 then [\<lparr>Name = ''remove kube-controller-manager static pod manifest'',
                        Command = ''rm'',
                        Args = [''-f'',
                          ''/var/lib/rancher/rke2/agent/pod-manifests/kube-controller-manager.yaml'']\<rparr>]
                 else [])
            else [])
      else [])"

text \<open>
  The block for the scheduler (lines 184 to 215). As in the source, the file name is
  \<open>KubeSchedulerArg\<close>, the key under which the argument map is read.
\<close>

definition ksInstructions ::
  "('plan, 'cfg) Deps \<Rightarrow> string \<Rightarrow> RotateCertificates \<Rightarrow> (string \<rightharpoonup> 'cfg) \<Rightarrow>
     OneTimeInstruction list" where
  "ksInstructions d runtime rotation config =
     (if rotationContainsService (Some rotation) ''scheduler'' then
        (let ksCertDir =
               getArgValue d (config (KubeSchedulerArg d)) (CertDirArgument d) ''=''
         in if ksCertDir \<noteq> '''' \<and>
               getArgValue d (config (KubeSchedulerArg d)) (TLSCertFileArgument d) ''='' = ''''
            then
              [\<lparr>Name = ''remove kube-scheduler cert for regeneration'',
                Command = ''rm'',
                Args = [''-f'', ksCertDir @ ''/'' @ KubeSchedulerArg d]\<rparr>,
               \<lparr>Name = ''remove kube-scheduler key for regeneration'',
                Command = ''rm'',
                Args = [''-f'', ksCertDir @ ''/'' @
                          ReplaceAll (KubeSchedulerArg d) ''.crt'' ''.key'']\<rparr>]
              @ (if runtime = RuntimeRKE2 d
                 then [\<lparr>Name = ''remove kube-scheduler static pod manifest'',
                        Command = ''rm'',
                        Args = [''-f'',
                          ''/var/lib/rancher/rke2/agent/pod-manifests/kube-scheduler.yaml'']\<rparr>]
                 else [])
            else [])
      else [])"

text \<open>The manifest removal on RKE2 (lines 217 to 221).\<close>

definition manifestRemoval ::
  "('plan, 'cfg) Deps \<Rightarrow> string \<Rightarrow> planEntry \<Rightarrow> OneTimeInstruction list" where
  "manifestRemoval d runtime entry =
     (if runtime = RuntimeRKE2 d then
        (let (generated, instruction) = generateManifestRemovalInstruction d runtime entry
         in if generated then [instruction] else [])
      else [])"

text \<open>
  The path of the rotation script and the arguments of the instruction that runs it
  (lines 124 to 139).
\<close>

definition rotateScriptPath :: "('plan, 'cfg) Deps \<Rightarrow> RKEControlPlane \<Rightarrow> string" where
  "rotateScriptPath d controlPlane =
     ''/var/lib/rancher/'' @ GetRuntime d (KubernetesVersion (Spec controlPlane))
       @ ''/rancher_v2prov_certificate_rotation/bin/rotate.sh''"

definition rotateArgs ::
  "('plan, 'cfg) Deps \<Rightarrow> RKEControlPlane \<Rightarrow> RotateCertificates \<Rightarrow> string list" where
  "rotateArgs d controlPlane rotation =
     (let args = [''-xe'', rotateScriptPath d controlPlane,
                  GetRuntime d (KubernetesVersion (Spec controlPlane)),
                  FormatInt (Generation rotation)]
      in if length (Services rotation) > 0
         then appendServiceArgs args (Services rotation) else args)"

text \<open>
  \<open>rotateCertificatesPlan\<close>: the results are the plan, the joined server and the error,
  with the state of the world after the call to \<open>generatePlanWithConfigFiles\<close>.
\<close>

definition rotateCertificatesPlan ::
  "('w, 'plan, 'cfg) Planner \<Rightarrow> ('plan, 'cfg) Deps \<Rightarrow> 'w \<Rightarrow> RKEControlPlane \<Rightarrow> Secret \<Rightarrow>
     RotateCertificates \<Rightarrow> planEntry \<Rightarrow> string \<Rightarrow> (NodePlan \<times> string \<times> err option) \<times> 'w" where
  "rotateCertificatesPlan p d w controlPlane tokensSecret rotation entry joinServer0 =
     (let joinServer = (if isOnlyWorker entry then '''' else joinServer0);
          ((rotatePlan, config, joinedServer, err), w') =
             generatePlanWithConfigFiles p w controlPlane tokensSecret entry joinServer True
      in case err of
           Some e \<Rightarrow> ((\<lparr>Files = [], Instructions = []\<rparr>, joinedServer, Some e), w')
         | None \<Rightarrow>
             if isOnlyWorker entry then
               ((rotatePlan\<lparr>Instructions := Instructions rotatePlan @
                   [restartInstruction
                      (GetRuntimeAgentUnit d (KubernetesVersion (Spec controlPlane)))]\<rparr>,
                 joinedServer, None), w')
             else
               (let runtime = GetRuntime d (KubernetesVersion (Spec controlPlane));
                    files = Files rotatePlan @
                      [\<lparr>Content = EncodeToString d idempotentRotateScript,
                        Path = rotateScriptPath d controlPlane\<rparr>];
                    ins1 = Instructions rotatePlan @
                      [rotateInstruction (rotateArgs d controlPlane rotation)];
                    ins2 = (if isControlPlane entry
                            then (ins1 @ kcmInstructions d runtime rotation config)
                                   @ ksInstructions d runtime rotation config
                            else ins1);
                    ins3 = ins2 @ manifestRemoval d runtime entry;
                    ins4 = ins3 @ [restartInstruction
                      (GetRuntimeServerUnit d (KubernetesVersion (Spec controlPlane)))]
                in ((rotatePlan\<lparr>Files := files, Instructions := ins4\<rparr>, joinedServer, None),
                    w')))"

subsection \<open>Orchestrator\<close>

text \<open>
  The calls that act on the outside world are recorded as events, with their arguments
  and results: a plan dispatched with \<open>assignAndCheckPlan\<close>, and the CAPI cluster
  paused or unpaused with \<open>pauseCAPICluster\<close>.
\<close>

datatype event =
  Assigned string planEntry NodePlan string "err option"
| Paused bool "err option"

text \<open>
  The loop of \<open>rotateCertificates\<close> over the collected nodes. Its first result is the
  error of an early return, or \<open>None\<close> when the loop ran to its end.
\<close>

fun rotateNodes ::
  "('w, 'plan, 'cfg) Planner \<Rightarrow> ('plan, 'cfg) Deps \<Rightarrow> RKEControlPlane \<Rightarrow> Secret \<Rightarrow>
     RotateCertificates \<Rightarrow> string \<Rightarrow> planEntry list \<Rightarrow> 'w \<Rightarrow> err option \<times> 'w \<times> event list" where
  "rotateNodes p d controlPlane tokensSecret rotation joinServer [] w = (None, w, [])"
| "rotateNodes p d controlPlane tokensSecret rotation joinServer (node # nodes) w =
     (if \<not> shouldRotateEntry rotation node
      then rotateNodes p d controlPlane tokensSecret rotation joinServer nodes w
      else
        (let ((rotatePlan, joinedServer, err), w1) =
               rotateCertificatesPlan p d w controlPlane tokensSecret rotation node joinServer
         in case err of
              Some e \<Rightarrow> (Some e, w1, [])
            | None \<Rightarrow>
                (let description = ''['' @ MachineName node @ ''] certificate rotation'';
                     (err, w2) =
                        assignAndCheckPlan p w1 description node rotatePlan joinedServer 0 0
                 in case err of
                      Some e \<Rightarrow>
                        (let (pauseErr, w3) = pauseCAPICluster p w2 controlPlane True
                         in case pauseErr of
                              Some pe \<Rightarrow>
                                (Some pe, w3,
                                 [Assigned description node rotatePlan joinedServer (Some e),
                                  Paused True (Some pe)])
                            | None \<Rightarrow>
                                (Some e, w3,
                                 [Assigned description node rotatePlan joinedServer (Some e),
                                  Paused True None]))
                    | None \<Rightarrow>
                        (let (r, w3, evs) =
                               rotateNodes p d controlPlane tokensSecret rotation joinServer
                                 nodes w2
                         in (r, w3,
                             Assigned description node rotatePlan joinedServer None # evs)))))"

text \<open>
  \<open>rotateCertificates\<close>: the returned status and error, the state of the world and the
  events of the call. The branch for a nil request after \<open>shouldRotate\<close> is never
  taken: \<open>shouldRotate\<close> is false for a nil request.
\<close>

definition rotateCertificates ::
  "('w, 'plan, 'cfg) Planner \<Rightarrow> ('plan, 'cfg) Deps \<Rightarrow> RKEControlPlane \<Rightarrow>
     RKEControlPlaneStatus \<Rightarrow> Secret \<Rightarrow> 'plan \<Rightarrow> 'w \<Rightarrow>
     (RKEControlPlaneStatus \<times> err option) \<times> 'w \<times> event list" where
  "rotateCertificates p d controlPlane status tokensSecret clusterPlan w =
     (if \<not> shouldRotate controlPlane then ((status, None), w, [])
      else
        case SpecRotateCertificates (Spec controlPlane) of
          None \<Rightarrow> ((status, None), w, [])
        | Some rotation \<Rightarrow>
            (let ((found, joinServer, err), w1) = findInitNode p w controlPlane clusterPlan
             in case err of
                  Some e \<Rightarrow> ((status, Some e), w1, [])
                | None \<Rightarrow>
                    if \<not> found \<or> joinServer = '''' then ((status, None), w1, [])
                    else
                      (let (loopErr, w2, evs) =
                             rotateNodes p d controlPlane tokensSecret rotation joinServer
                               (collect d clusterPlan (anyRole d)) w1
                       in case loopErr of
                            Some e \<Rightarrow> ((status, Some e), w2, evs)
                          | None \<Rightarrow>
                              (let (unpauseErr, w3) = pauseCAPICluster p w2 controlPlane False
                               in case unpauseErr of
                                    Some e \<Rightarrow>
                                      ((status, Some (errWaiting ''unpausing CAPI cluster'')),
                                       w3, evs @ [Paused False (Some e)])
                                  | None \<Rightarrow>
                                      ((status\<lparr>CertificateRotationGeneration :=
                                           Generation rotation\<rparr>,
                                        Some (errWaiting ''certificate rotation done'')),
                                       w3, evs @ [Paused False None])))))"

text \<open>Predicates on events, used to state what a run dispatched.\<close>

fun succeededDispatch :: "event \<Rightarrow> bool" where
  "succeededDispatch (Assigned description entry nodePlan joinedServer None) = True"
| "succeededDispatch ev = False"

fun dispatchedNode :: "event \<Rightarrow> planEntry option" where
  "dispatchedNode (Assigned description entry nodePlan joinedServer result) = Some entry"
| "dispatchedNode (Paused paused result) = None"

subsection \<open>Sample inputs\<close>

text \<open>
  Concrete values on which the theorems below are instantiated: a control plane with
  rotation generation 5 requested and generation 4 applied, one node for each role, and
  sample collaborators. The sample argument map is a list of key and value pairs for
  each component, and the sample world is the number of plans dispatched so far.
\<close>

definition cpDue :: RKEControlPlane where
  "cpDue =
     \<lparr>Spec = \<lparr>KubernetesVersion = ''v1.28.4+rke2r1'',
              SpecRotateCertificates = Some \<lparr>Generation = 5, Services = [''etcd'']\<rparr>\<rparr>,
      Status = \<lparr>Initialized = True, CertificateRotationGeneration = 4\<rparr>\<rparr>"

definition statusAt4 :: RKEControlPlaneStatus where
  "statusAt4 = \<lparr>Initialized = True, CertificateRotationGeneration = 4\<rparr>"

definition workerNode :: planEntry where
  "workerNode =
     \<lparr>MachineName = ''w1'', etcdRole = False, controlPlaneRole = False, workerRole = True\<rparr>"

definition etcdNode :: planEntry where
  "etcdNode =
     \<lparr>MachineName = ''e1'', etcdRole = True, controlPlaneRole = False, workerRole = False\<rparr>"

definition etcdWorkerNode :: planEntry where
  "etcdWorkerNode =
     \<lparr>MachineName = ''ew1'', etcdRole = True, controlPlaneRole = False, workerRole = True\<rparr>"

definition controlPlaneNode :: planEntry where
  "controlPlaneNode =
     \<lparr>MachineName = ''c1'', etcdRole = False, controlPlaneRole = True, workerRole = False\<rparr>"

definition rotateAll :: RotateCertificates where
  "rotateAll = \<lparr>Generation = 5, Services = []\<rparr>"

definition rotateEtcd :: RotateCertificates where
  "rotateEtcd = \<lparr>Generation = 5, Services = [''etcd'']\<rparr>"

definition exampleSecret :: Secret where
  "exampleSecret = \<lparr>ServerToken = ''server-token'', AgentToken = ''agent-token''\<rparr>"

definition exampleDeps :: "(planEntry list, (string \<times> string) list) Deps" where
  "exampleDeps =
     \<lparr>collect = (\<lambda>clusterPlan include. filter include clusterPlan),
      anyRole = (\<lambda>entry. True),
      getArgValue = (\<lambda>arg searchArg delim.
         case arg of
           None \<Rightarrow> ''''
         | Some kvs \<Rightarrow> (case map_of kvs searchArg of None \<Rightarrow> '''' | Some v \<Rightarrow> v)),
      generateManifestRemovalInstruction =
        (\<lambda>runtime entry. (False, \<lparr>Name = '''', Command = '''', Args = []\<rparr>)),
      GetRuntime = (\<lambda>version. ''rke2''),
      GetRuntimeAgentUnit = (\<lambda>version. ''rke2-agent''),
      GetRuntimeServerUnit = (\<lambda>version. ''rke2-server''),
      RuntimeRKE2 = ''rke2'',
      KubeControllerManagerArg = ''kube-controller-manager-arg'',
      KubeSchedulerArg = ''kube-scheduler-arg'',
      CertDirArgument = ''cert-dir'',
      TLSCertFileArgument = ''tls-cert-file'',
      DefaultKubeControllerManagerCert = ''kube-controller-manager.crt'',
      EncodeToString = (\<lambda>bytes. bytes)\<rparr>"

definition exampleConfig :: "string \<rightharpoonup> (string \<times> string) list" where
  "exampleConfig =
     [''kube-controller-manager-arg'' \<mapsto> [(''cert-dir'', ''/tls/kcm'')],
      ''kube-scheduler-arg'' \<mapsto> [(''cert-dir'', ''/tls/ks'')]]"

definition explicitTLSConfig :: "string \<rightharpoonup> (string \<times> string) list" where
  "explicitTLSConfig =
     [''kube-controller-manager-arg'' \<mapsto>
        [(''cert-dir'', ''/tls/kcm''), (''tls-cert-file'', ''/tls/own.crt'')]]"

definition examplePlanner :: "(nat, planEntry list, (string \<times> string) list) Planner" where
  "examplePlanner =
     \<lparr>findInitNode =
        (\<lambda>w controlPlane clusterPlan. ((True, ''https://10.0.0.1:9345'', None), w)),
      generatePlanWithConfigFiles =
        (\<lambda>w controlPlane tokensSecret entry joinServer renderS3.
           ((\<lparr>Files = [], Instructions = []\<rparr>, exampleConfig, joinServer, None), w)),
      assignAndCheckPlan =
        (\<lambda>w description entry nodePlan joinedServer minWait maxWait. (None, Suc w)),
      pauseCAPICluster = (\<lambda>w controlPlane paused. (None, w))\<rparr>"

text \<open>A planner whose dispatch fails on the second plan.\<close>

definition failingPlanner :: "(nat, planEntry list, (string \<times> string) list) Planner" where
  "failingPlanner =
     examplePlanner\<lparr>assignAndCheckPlan :=
       (\<lambda>w description entry nodePlan joinedServer minWait maxWait.
          (if w = 1 then Some (errOther ''plan failed'') else None, Suc w))\<rparr>"

text \<open>A planner that cannot unpause the CAPI cluster.\<close>

definition stuckPlanner :: "(nat, planEntry list, (string \<times> string) list) Planner" where
  "stuckPlanner =
     examplePlanner\<lparr>pauseCAPICluster :=
       (\<lambda>w controlPlane paused.
          (if paused then None else Some (errOther ''cannot unpause''), w))\<rparr>"

definition rotateScheduler :: RotateCertificates where
  "rotateScheduler = \<lparr>Generation = 5, Services = [''scheduler'']\<rparr>"

text \<open>A planner whose argument map names an explicit TLS certificate file.\<close>

definition tlsPlanner :: "(nat, planEntry list, (string \<times> string) list) Planner" where
  "tlsPlanner =
     examplePlanner\<lparr>generatePlanWithConfigFiles :=
        (\<lambda>w controlPlane tokensSecret entry joinServer renderS3.
           ((\<lparr>Files = [], Instructions = []\<rparr>, explicitTLSConfig, joinServer, None), w))\<rparr>"

text \<open>
  A planner whose base-plan generation resolves every coordination address, the blank one
  too, to the address the node joined before.
\<close>

definition rejoinPlanner :: "(nat, planEntry list, (string \<times> string) list) Planner" where
  "rejoinPlanner =
     examplePlanner\<lparr>generatePlanWithConfigFiles :=
        (\<lambda>w controlPlane tokensSecret entry joinServer renderS3.
           ((\<lparr>Files = [], Instructions = []\<rparr>, exampleConfig, ''https://old:9345'', None), w))\<rparr>"

definition etcdNode2 :: planEntry where
  "etcdNode2 =
     \<lparr>MachineName = ''e2'', etcdRole = True, controlPlaneRole = False, workerRole = False\<rparr>"

text \<open>
  A cluster of four nodes, of which the worker is not concerned by a rotation of the
  service \<open>etcd\<close>, the address of its init node, and the plan composed for a node.
\<close>

definition exampleCluster :: "planEntry list" where
  "exampleCluster = [etcdNode, workerNode, etcdWorkerNode, etcdNode2]"

definition exampleJoinServer :: string where
  "exampleJoinServer = ''https://10.0.0.1:9345''"

definition plannedFor :: "planEntry \<Rightarrow> NodePlan" where
  "plannedFor node =
     fst (fst (rotateCertificatesPlan examplePlanner exampleDeps 0 cpDue exampleSecret
       rotateEtcd node exampleJoinServer))"

section \<open>Properties\<close>

subsection \<open>Helper lemmas\<close>

lemma anyRelevant_iff: "anyRelevant rs ss \<longleftrightarrow> (\<exists>s. s \<in> set ss \<and> s \<in> rs)"
  by (induction ss) auto

lemma relevantServices_spec: "relevantServices entry = specRelevantSet entry"
  by (auto simp: relevantServices_def specRelevantSet_def workerServices_def
      controlPlaneExtraServices_def etcdServices_def Let_def)

lemma containsService_iff: "containsService ss service \<longleftrightarrow> service \<in> set ss"
  by (induction ss) auto

lemma specRelevantSet_workerNode: "specRelevantSet workerNode = workerServices"
  by (simp add: specRelevantSet_def workerNode_def isWorker_def isControlPlane_def isEtcd_def)

lemma specRelevantSet_etcdNode: "specRelevantSet etcdNode = etcdServices"
  by (simp add: specRelevantSet_def etcdNode_def isWorker_def isControlPlane_def isEtcd_def)

lemma specRelevantSet_mono:
  assumes "isWorker e \<Longrightarrow> isWorker e'" "isControlPlane e \<Longrightarrow> isControlPlane e'"
    "isEtcd e \<Longrightarrow> isEtcd e'"
  shows "specRelevantSet e \<subseteq> specRelevantSet e'"
  using assms unfolding specRelevantSet_def by (auto split: if_splits)

subsection \<open>Rotation trigger\<close>

text \<open>
  Claim C1. For every control plane object, \<open>shouldRotate\<close> returns true if and only if
  a rotation request is present (\<open>RotateCertificates\<close> is not nil), the \<open>Initialized\<close>
  status flag is true, and the persisted \<open>status.CertificateRotationGeneration\<close> differs
  from the requested generation; in every other case it returns false.
\<close>

theorem shouldRotate_iff:
  "shouldRotate cp \<longleftrightarrow>
     (\<exists>rotation. SpecRotateCertificates (Spec cp) = Some rotation \<and>
        Initialized (Status cp) = True \<and>
        CertificateRotationGeneration (Status cp) \<noteq> Generation rotation)"
  by (auto simp: shouldRotate_def split: option.splits)

theorem shouldRotate_iff_witness: "shouldRotate cpDue"
  using shouldRotate_iff [of cpDue] by (simp add: cpDue_def)

subsection \<open>Service relevance filter\<close>

text \<open>
  Claim C2. The set of services the code builds for a node is the one of the fixed
  mapping (worker: server-runtime, api-server, kubelet, kube-proxy, auth-proxy;
  control plane: these and controller-manager, scheduler, runtime-controller, admin,
  cloud-controller; etcd: etcd, kubelet, server-runtime). With an empty service list
  \<open>shouldRotateEntry\<close> is true; with a non-empty list it is true if and only if some
  requested service is in the node's set; in particular a non-empty list disjoint from
  the node's set gives false.
\<close>

theorem shouldRotateEntry_relevance:
  "relevantServices entry = specRelevantSet entry \<and>
   (Services rotation = [] \<longrightarrow> shouldRotateEntry rotation entry) \<and>
   (Services rotation \<noteq> [] \<longrightarrow>
      (shouldRotateEntry rotation entry \<longleftrightarrow>
         (\<exists>s. s \<in> set (Services rotation) \<and> s \<in> specRelevantSet entry))) \<and>
   (Services rotation \<noteq> [] \<and> set (Services rotation) \<inter> specRelevantSet entry = {} \<longrightarrow>
      \<not> shouldRotateEntry rotation entry)"
  by (auto simp: shouldRotateEntry_def anyRelevant_iff relevantServices_spec)

theorem shouldRotateEntry_relevance_witness:
  "shouldRotateEntry rotateAll workerNode \<and>
   Services rotateEtcd \<noteq> [] \<and>
   set (Services rotateEtcd) \<inter> specRelevantSet workerNode = {} \<and>
   \<not> shouldRotateEntry rotateEtcd workerNode \<and>
   shouldRotateEntry rotateEtcd etcdNode"
  using shouldRotateEntry_relevance [of workerNode rotateAll]
    shouldRotateEntry_relevance [of workerNode rotateEtcd]
    shouldRotateEntry_relevance [of etcdNode rotateEtcd]
  by (simp add: rotateAll_def rotateEtcd_def specRelevantSet_workerNode specRelevantSet_etcdNode
      workerServices_def etcdServices_def)

text \<open>
  Claim C10. For a rotation request with a non-empty service list, \<open>shouldRotateEntry\<close>
  is monotone in the role flags: if it is true for a node, it is true for every node
  that holds at least the same roles, because the set of relevant services only grows
  with the roles, and the services of a worker are among those of a control-plane node.
\<close>

theorem shouldRotateEntry_mono:
  assumes "Services rotation \<noteq> []"
    and "isWorker e \<Longrightarrow> isWorker e'"
    and "isControlPlane e \<Longrightarrow> isControlPlane e'"
    and "isEtcd e \<Longrightarrow> isEtcd e'"
    and "shouldRotateEntry rotation e"
  shows "shouldRotateEntry rotation e' \<and> relevantServices e \<subseteq> relevantServices e' \<and>
         (\<forall>a b. isWorker a \<and> \<not> isControlPlane a \<and> \<not> isEtcd a \<and> isControlPlane b \<longrightarrow>
            relevantServices a \<subseteq> relevantServices b)"
proof -
  have sub: "relevantServices e \<subseteq> relevantServices e'"
    unfolding relevantServices_spec using assms(2-4) by (rule specRelevantSet_mono)
  have roles: "\<forall>a b. isWorker a \<and> \<not> isControlPlane a \<and> \<not> isEtcd a \<and> isControlPlane b \<longrightarrow>
            relevantServices a \<subseteq> relevantServices b"
    unfolding relevantServices_spec by (auto simp: specRelevantSet_def)
  from assms(1,5) obtain s where "s \<in> set (Services rotation)" "s \<in> relevantServices e"
    by (auto simp: shouldRotateEntry_def anyRelevant_iff)
  with sub have "anyRelevant (relevantServices e') (Services rotation)"
    by (auto simp: anyRelevant_iff)
  with sub have "shouldRotateEntry rotation e'" by (simp add: shouldRotateEntry_def)
  with sub roles show ?thesis by blast
qed

theorem shouldRotateEntry_mono_witness:
  "Services rotateEtcd \<noteq> [] \<and> shouldRotateEntry rotateEtcd etcdNode \<and>
   shouldRotateEntry rotateEtcd etcdWorkerNode \<and>
   relevantServices etcdNode \<subseteq> relevantServices etcdWorkerNode"
proof -
  have 1: "Services rotateEtcd \<noteq> []" by (simp add: rotateEtcd_def)
  have 2: "isWorker etcdNode \<Longrightarrow> isWorker etcdWorkerNode"
    by (simp add: isWorker_def etcdNode_def)
  have 3: "isControlPlane etcdNode \<Longrightarrow> isControlPlane etcdWorkerNode"
    by (simp add: isControlPlane_def etcdNode_def)
  have 4: "isEtcd etcdNode \<Longrightarrow> isEtcd etcdWorkerNode"
    by (simp add: isEtcd_def etcdWorkerNode_def)
  have 5: "shouldRotateEntry rotateEtcd etcdNode"
    by (simp add: shouldRotateEntry_def rotateEtcd_def relevantServices_spec
        specRelevantSet_etcdNode etcdServices_def)
  from shouldRotateEntry_mono [OF 1 2 3 4 5] 1 5 show ?thesis by simp
qed

subsection \<open>Plan composer\<close>

lemma rotationContainsService_iff:
  "rotationContainsService (Some rotation) service \<longleftrightarrow>
     Services rotation = [] \<or> service \<in> set (Services rotation)"
  by (simp add: rotationContainsService_def containsService_iff)

lemma composed_for_worker:
  assumes "isOnlyWorker entry"
    and "generatePlanWithConfigFiles p w controlPlane tokensSecret entry '''' True
           = ((basePlan, config, joinedServer, None), w')"
  shows "rotateCertificatesPlan p d w controlPlane tokensSecret rotation entry joinServer
         = ((basePlan\<lparr>Instructions := Instructions basePlan @
               [restartInstruction (GetRuntimeAgentUnit d (KubernetesVersion (Spec controlPlane)))]\<rparr>,
             joinedServer, None), w')"
  using assms by (simp add: rotateCertificatesPlan_def Let_def)

lemma composed_for_server:
  assumes "\<not> isOnlyWorker entry"
    and "generatePlanWithConfigFiles p w controlPlane tokensSecret entry joinServer True
           = ((basePlan, config, joinedServer, None), w')"
  shows "rotateCertificatesPlan p d w controlPlane tokensSecret rotation entry joinServer
         = ((basePlan\<lparr>
               Files := Files basePlan @
                 [\<lparr>Content = EncodeToString d idempotentRotateScript,
                   Path = rotateScriptPath d controlPlane\<rparr>],
               Instructions := Instructions basePlan @
                 [rotateInstruction (rotateArgs d controlPlane rotation)] @
                 (if isControlPlane entry
                  then kcmInstructions d (GetRuntime d (KubernetesVersion (Spec controlPlane)))
                         rotation config @
                       ksInstructions d (GetRuntime d (KubernetesVersion (Spec controlPlane)))
                         rotation config
                  else []) @
                 manifestRemoval d (GetRuntime d (KubernetesVersion (Spec controlPlane))) entry @
                 [restartInstruction
                    (GetRuntimeServerUnit d (KubernetesVersion (Spec controlPlane)))]\<rparr>,
             joinedServer, None), w')"
  using assms by (simp add: rotateCertificatesPlan_def Let_def)

lemma examplePlanner_generate:
  "generatePlanWithConfigFiles examplePlanner w controlPlane tokensSecret entry joinServer renderS3
     = ((\<lparr>Files = [], Instructions = []\<rparr>, exampleConfig, joinServer, None), w)"
  by (simp add: examplePlanner_def)

lemma tlsPlanner_generate:
  "generatePlanWithConfigFiles tlsPlanner w controlPlane tokensSecret entry joinServer renderS3
     = ((\<lparr>Files = [], Instructions = []\<rparr>, explicitTLSConfig, joinServer, None), w)"
  by (simp add: tlsPlanner_def)

text \<open>
  Claim C3, as amended. For a worker-only node, when base-plan generation succeeds with
  a base plan that carries no instruction, the composed plan holds exactly one
  instruction, the restart of the agent service unit, and no file beyond those of the
  base plan, so no rotation script. Base-plan generation is called with the empty string
  as coordination address, whatever address the caller passed, and the address returned
  is the one base-plan generation resolves from that blank address.
\<close>

theorem rotateCertificatesPlan_worker_only:
  assumes "isOnlyWorker entry"
    and "generatePlanWithConfigFiles p w controlPlane tokensSecret entry '''' True
           = ((basePlan, config, joinedServer, None), w')"
    and "Instructions basePlan = []"
  shows "\<exists>plan. rotateCertificatesPlan p d w controlPlane tokensSecret rotation entry joinServer
           = ((plan, joinedServer, None), w') \<and>
         Instructions plan =
           [restartInstruction (GetRuntimeAgentUnit d (KubernetesVersion (Spec controlPlane)))] \<and>
         length (Instructions plan) = 1 \<and>
         Files plan = Files basePlan"
  using assms by (simp add: composed_for_worker)

theorem rotateCertificatesPlan_worker_only_witness:
  "isOnlyWorker workerNode \<and>
   rotateCertificatesPlan examplePlanner exampleDeps 0 cpDue exampleSecret rotateAll workerNode
     ''https://10.0.0.1:9345''
   = ((\<lparr>Files = [],
        Instructions = [\<lparr>Name = ''restart'', Command = ''systemctl'',
                         Args = [''restart'', ''rke2-agent'']\<rparr>]\<rparr>, '''', None), 0)"
proof -
  have 1: "isOnlyWorker workerNode"
    by (simp add: isOnlyWorker_def isEtcd_def isControlPlane_def workerNode_def)
  have 2: "generatePlanWithConfigFiles examplePlanner 0 cpDue exampleSecret workerNode '''' True
             = ((\<lparr>Files = [], Instructions = []\<rparr>, exampleConfig, '''', None), 0)"
    by (rule examplePlanner_generate)
  have 3: "Instructions \<lparr>Files = [], Instructions = []\<rparr> = []" by simp
  from rotateCertificatesPlan_worker_only [OF 1 2 3, where d = exampleDeps
      and rotation = rotateAll and joinServer = "''https://10.0.0.1:9345''"]
  obtain plan where
    r: "rotateCertificatesPlan examplePlanner exampleDeps 0 cpDue exampleSecret rotateAll workerNode
          ''https://10.0.0.1:9345'' = ((plan, '''', None), 0)"
    and i: "Instructions plan =
          [restartInstruction (GetRuntimeAgentUnit exampleDeps (KubernetesVersion (Spec cpDue)))]"
    and f: "Files plan = Files \<lparr>Files = [], Instructions = []\<rparr>"
    by blast
  have "plan = \<lparr>Files = [], Instructions = [\<lparr>Name = ''restart'', Command = ''systemctl'',
                         Args = [''restart'', ''rke2-agent'']\<rparr>]\<rparr>"
    using i f by (cases plan) (simp add: restartInstruction_def exampleDeps_def)
  with r 1 show ?thesis by simp
qed

text \<open>
  The address returned is not blank for every worker-only node: the code hands back the
  address that base-plan generation resolved. With a generation that resolves the blank
  address to the address joined before, the worker node's plan still holds the one
  restart instruction, and the address returned is that older address.
\<close>

theorem rotateCertificatesPlan_worker_returns_resolved:
  "isOnlyWorker workerNode \<and>
   rotateCertificatesPlan rejoinPlanner exampleDeps 0 cpDue exampleSecret rotateAll workerNode
     ''https://10.0.0.1:9345''
   = ((\<lparr>Files = [],
        Instructions = [\<lparr>Name = ''restart'', Command = ''systemctl'',
                         Args = [''restart'', ''rke2-agent'']\<rparr>]\<rparr>,
       ''https://old:9345'', None), 0) \<and>
   fst (snd (fst (rotateCertificatesPlan rejoinPlanner exampleDeps 0 cpDue exampleSecret
     rotateAll workerNode ''https://10.0.0.1:9345''))) \<noteq> ''''"
proof -
  have 1: "isOnlyWorker workerNode"
    by (simp add: isOnlyWorker_def isEtcd_def isControlPlane_def workerNode_def)
  have 2: "generatePlanWithConfigFiles rejoinPlanner 0 cpDue exampleSecret workerNode '''' True
             = ((\<lparr>Files = [], Instructions = []\<rparr>, exampleConfig, ''https://old:9345'', None), 0)"
    by (simp add: rejoinPlanner_def)
  have "rotateCertificatesPlan rejoinPlanner exampleDeps 0 cpDue exampleSecret rotateAll
          workerNode ''https://10.0.0.1:9345''
        = ((\<lparr>Files = [],
             Instructions = [\<lparr>Name = ''restart'', Command = ''systemctl'',
                              Args = [''restart'', ''rke2-agent'']\<rparr>]\<rparr>,
            ''https://old:9345'', None), 0)"
    unfolding composed_for_worker [OF 1 2]
    by (simp add: restartInstruction_def exampleDeps_def)
  with 1 show ?thesis by simp
qed

lemma example_runtime: "GetRuntime exampleDeps version = ''rke2''"
  by (simp add: exampleDeps_def)

lemma example_serverUnit: "GetRuntimeServerUnit exampleDeps version = ''rke2-server''"
  by (simp add: exampleDeps_def)

lemma example_manifestRemoval: "manifestRemoval exampleDeps runtime entry = []"
  by (simp add: manifestRemoval_def exampleDeps_def)

lemma example_rotateArgs:
  "rotateArgs exampleDeps cpDue rotateAll =
     [''-xe'', ''/var/lib/rancher/rke2/rancher_v2prov_certificate_rotation/bin/rotate.sh'',
      ''rke2'', ''5'']"
  by (simp add: rotateArgs_def rotateScriptPath_def rotateAll_def exampleDeps_def FormatInt_def
      natToString.simps)

lemma example_kcm:
  "kcmInstructions exampleDeps ''rke2'' rotateAll exampleConfig =
     [\<lparr>Name = ''remove kube-controller-manager cert for regeneration'', Command = ''rm'',
       Args = [''-f'', ''/tls/kcm/kube-controller-manager.crt'']\<rparr>,
      \<lparr>Name = ''remove kube-controller-manager key for regeneration'', Command = ''rm'',
       Args = [''-f'', ''/tls/kcm/kube-controller-manager.key'']\<rparr>,
      \<lparr>Name = ''remove kube-controller-manager static pod manifest'', Command = ''rm'',
       Args = [''-f'',
         ''/var/lib/rancher/rke2/agent/pod-manifests/kube-controller-manager.yaml'']\<rparr>]"
  by (simp add: kcmInstructions_def rotationContainsService_def rotateAll_def exampleDeps_def
      exampleConfig_def ReplaceAll_def)

lemma example_ks:
  "ksInstructions exampleDeps ''rke2'' rotateAll exampleConfig =
     [\<lparr>Name = ''remove kube-scheduler cert for regeneration'', Command = ''rm'',
       Args = [''-f'', ''/tls/ks/kube-scheduler-arg'']\<rparr>,
      \<lparr>Name = ''remove kube-scheduler key for regeneration'', Command = ''rm'',
       Args = [''-f'', ''/tls/ks/kube-scheduler-arg'']\<rparr>,
      \<lparr>Name = ''remove kube-scheduler static pod manifest'', Command = ''rm'',
       Args = [''-f'', ''/var/lib/rancher/rke2/agent/pod-manifests/kube-scheduler.yaml'']\<rparr>]"
  by (simp add: ksInstructions_def rotationContainsService_def rotateAll_def exampleDeps_def
      exampleConfig_def ReplaceAll_def)

lemma controlPlane_not_onlyWorker: "isControlPlane entry \<Longrightarrow> \<not> isOnlyWorker entry"
  by (simp add: isOnlyWorker_def)

text \<open>
  Claim C4. For a control-plane node whose request includes the service
  \<open>controller-manager\<close> (listed, or an empty list): if the argument map gives a
  non-empty certificate directory and no TLS certificate file for the controller
  manager, the composed plan contains the instructions that delete the certificate file
  and the key file in that directory; if a TLS certificate file is configured, the
  block of the controller manager appends nothing.
\<close>

theorem rotateCertificatesPlan_controller_manager:
  assumes "isControlPlane entry"
    and "Services rotation = [] \<or> ''controller-manager'' \<in> set (Services rotation)"
    and "generatePlanWithConfigFiles p w controlPlane tokensSecret entry joinServer True
           = ((basePlan, config, joinedServer, None), w')"
    and "certDir = getArgValue d (config (KubeControllerManagerArg d)) (CertDirArgument d) ''=''"
    and "certFile =
           getArgValue d (config (KubeControllerManagerArg d)) (TLSCertFileArgument d) ''=''"
    and "runtime = GetRuntime d (KubernetesVersion (Spec controlPlane))"
  shows "\<exists>plan. rotateCertificatesPlan p d w controlPlane tokensSecret rotation entry joinServer
           = ((plan, joinedServer, None), w') \<and>
         (certDir \<noteq> '''' \<and> certFile = '''' \<longrightarrow>
            \<lparr>Name = ''remove kube-controller-manager cert for regeneration'', Command = ''rm'',
             Args = [''-f'', certDir @ ''/'' @ DefaultKubeControllerManagerCert d]\<rparr>
              \<in> set (Instructions plan) \<and>
            \<lparr>Name = ''remove kube-controller-manager key for regeneration'', Command = ''rm'',
             Args = [''-f'', certDir @ ''/'' @
                       ReplaceAll (DefaultKubeControllerManagerCert d) ''.crt'' ''.key'']\<rparr>
              \<in> set (Instructions plan)) \<and>
         (certFile \<noteq> '''' \<longrightarrow>
            kcmInstructions d runtime rotation config = [] \<and>
            Instructions plan =
              Instructions basePlan @ [rotateInstruction (rotateArgs d controlPlane rotation)] @
              ksInstructions d runtime rotation config @ manifestRemoval d runtime entry @
              [restartInstruction
                 (GetRuntimeServerUnit d (KubernetesVersion (Spec controlPlane)))])"
proof -
  have inc: "rotationContainsService (Some rotation) ''controller-manager''"
    using assms(2) by (simp add: rotationContainsService_iff)
  have nw: "\<not> isOnlyWorker entry"
    using assms(1) by (rule controlPlane_not_onlyWorker)
  have kcm1: "certDir \<noteq> '''' \<and> certFile = '''' \<Longrightarrow>
      set (kcmInstructions d runtime rotation config) \<supseteq>
        {\<lparr>Name = ''remove kube-controller-manager cert for regeneration'', Command = ''rm'',
          Args = [''-f'', certDir @ ''/'' @ DefaultKubeControllerManagerCert d]\<rparr>,
         \<lparr>Name = ''remove kube-controller-manager key for regeneration'', Command = ''rm'',
          Args = [''-f'', certDir @ ''/'' @
                    ReplaceAll (DefaultKubeControllerManagerCert d) ''.crt'' ''.key'']\<rparr>}"
    using inc assms(4,5) by (simp add: kcmInstructions_def Let_def)
  have kcm2: "certFile \<noteq> '''' \<Longrightarrow> kcmInstructions d runtime rotation config = []"
    using assms(4,5) by (simp add: kcmInstructions_def Let_def)
  show ?thesis
    unfolding composed_for_server [OF nw assms(3)]
    using assms(1) kcm1 kcm2 assms(6) by auto
qed

theorem rotateCertificatesPlan_controller_manager_witness:
  "isControlPlane controlPlaneNode \<and>
   Services rotateAll = [] \<and>
   \<lparr>Name = ''remove kube-controller-manager cert for regeneration'', Command = ''rm'',
    Args = [''-f'', ''/tls/kcm/kube-controller-manager.crt'']\<rparr>
     \<in> set (Instructions (fst (fst (rotateCertificatesPlan examplePlanner exampleDeps 0 cpDue
           exampleSecret rotateAll controlPlaneNode ''https://10.0.0.1:9345'')))) \<and>
   \<lparr>Name = ''remove kube-controller-manager key for regeneration'', Command = ''rm'',
    Args = [''-f'', ''/tls/kcm/kube-controller-manager.key'']\<rparr>
     \<in> set (Instructions (fst (fst (rotateCertificatesPlan examplePlanner exampleDeps 0 cpDue
           exampleSecret rotateAll controlPlaneNode ''https://10.0.0.1:9345'')))) \<and>
   map Name (Instructions (fst (fst (rotateCertificatesPlan tlsPlanner exampleDeps 0 cpDue
     exampleSecret rotateAll controlPlaneNode ''https://10.0.0.1:9345'')))) =
     [''rotate certificates'', ''restart'']"
proof -
  have 1: "isControlPlane controlPlaneNode"
    by (simp add: isControlPlane_def controlPlaneNode_def)
  have 2: "Services rotateAll = [] \<or> ''controller-manager'' \<in> set (Services rotateAll)"
    by (simp add: rotateAll_def)
  have 3: "generatePlanWithConfigFiles examplePlanner 0 cpDue exampleSecret controlPlaneNode
             ''https://10.0.0.1:9345'' True
           = ((\<lparr>Files = [], Instructions = []\<rparr>, exampleConfig, ''https://10.0.0.1:9345'', None), 0)"
    by (rule examplePlanner_generate)
  have 4: "generatePlanWithConfigFiles tlsPlanner 0 cpDue exampleSecret controlPlaneNode
             ''https://10.0.0.1:9345'' True
           = ((\<lparr>Files = [], Instructions = []\<rparr>, explicitTLSConfig, ''https://10.0.0.1:9345'',
               None), 0)"
    by (rule tlsPlanner_generate)
  have a: "getArgValue exampleDeps (exampleConfig (KubeControllerManagerArg exampleDeps))
             (CertDirArgument exampleDeps) ''='' = ''/tls/kcm''"
    by (simp add: exampleDeps_def exampleConfig_def)
  have b: "getArgValue exampleDeps (exampleConfig (KubeControllerManagerArg exampleDeps))
             (TLSCertFileArgument exampleDeps) ''='' = ''''"
    by (simp add: exampleDeps_def exampleConfig_def)
  have c: "getArgValue exampleDeps (explicitTLSConfig (KubeControllerManagerArg exampleDeps))
             (TLSCertFileArgument exampleDeps) ''='' = ''/tls/own.crt''"
    by (simp add: exampleDeps_def explicitTLSConfig_def)
  have dk: "DefaultKubeControllerManagerCert exampleDeps = ''kube-controller-manager.crt''"
    by (simp add: exampleDeps_def)
  have rk: "ReplaceAll ''kube-controller-manager.crt'' ''.crt'' ''.key''
              = ''kube-controller-manager.key''"
    by (simp add: ReplaceAll_def)
  have ks: "ksInstructions exampleDeps ''rke2'' rotateAll explicitTLSConfig = []"
    by (simp add: ksInstructions_def rotationContainsService_def rotateAll_def exampleDeps_def
        explicitTLSConfig_def)
  note t1 = rotateCertificatesPlan_controller_manager [OF 1 2 3 refl refl refl,
      where d = exampleDeps]
  note t2 = rotateCertificatesPlan_controller_manager [OF 1 2 4 refl refl refl,
      where d = exampleDeps]
  from t1 have first:
    "\<lparr>Name = ''remove kube-controller-manager cert for regeneration'', Command = ''rm'',
      Args = [''-f'', ''/tls/kcm/kube-controller-manager.crt'']\<rparr>
       \<in> set (Instructions (fst (fst (rotateCertificatesPlan examplePlanner exampleDeps 0 cpDue
             exampleSecret rotateAll controlPlaneNode ''https://10.0.0.1:9345'')))) \<and>
     \<lparr>Name = ''remove kube-controller-manager key for regeneration'', Command = ''rm'',
      Args = [''-f'', ''/tls/kcm/kube-controller-manager.key'']\<rparr>
       \<in> set (Instructions (fst (fst (rotateCertificatesPlan examplePlanner exampleDeps 0 cpDue
             exampleSecret rotateAll controlPlaneNode ''https://10.0.0.1:9345''))))"
    unfolding a b dk rk by auto
  from t2 have second:
    "map Name (Instructions (fst (fst (rotateCertificatesPlan tlsPlanner exampleDeps 0 cpDue
       exampleSecret rotateAll controlPlaneNode ''https://10.0.0.1:9345'')))) =
     [''rotate certificates'', ''restart'']"
    by (auto simp: c example_runtime ks example_manifestRemoval rotateInstruction_def
        restartInstruction_def)
  from 1 first second show ?thesis by (simp add: rotateAll_def)
qed

lemma example_rotateArgs_scheduler:
  "rotateArgs exampleDeps cpDue rotateScheduler =
     [''-xe'', ''/var/lib/rancher/rke2/rancher_v2prov_certificate_rotation/bin/rotate.sh'',
      ''rke2'', ''5'', ''-s'', ''scheduler'']"
  by (simp add: rotateArgs_def rotateScriptPath_def rotateScheduler_def exampleDeps_def
      FormatInt_def natToString.simps)

lemma example_kcm_scheduler:
  "kcmInstructions exampleDeps ''rke2'' rotateScheduler exampleConfig = []"
  by (simp add: kcmInstructions_def rotationContainsService_def rotateScheduler_def)

lemma example_ks_scheduler:
  "ksInstructions exampleDeps ''rke2'' rotateScheduler exampleConfig =
     [\<lparr>Name = ''remove kube-scheduler cert for regeneration'', Command = ''rm'',
       Args = [''-f'', ''/tls/ks/kube-scheduler-arg'']\<rparr>,
      \<lparr>Name = ''remove kube-scheduler key for regeneration'', Command = ''rm'',
       Args = [''-f'', ''/tls/ks/kube-scheduler-arg'']\<rparr>,
      \<lparr>Name = ''remove kube-scheduler static pod manifest'', Command = ''rm'',
       Args = [''-f'', ''/var/lib/rancher/rke2/agent/pod-manifests/kube-scheduler.yaml'']\<rparr>]"
  by (simp add: ksInstructions_def rotationContainsService_def rotateScheduler_def
      exampleDeps_def exampleConfig_def ReplaceAll_def)

lemma controlPlaneNode_roles:
  "isControlPlane controlPlaneNode" "\<not> isOnlyWorker controlPlaneNode"
  by (simp_all add: isOnlyWorker_def isControlPlane_def controlPlaneNode_def)

text \<open>
  Claim C5. The scheduler block should delete the scheduler's certificate file and the
  key file whose name has \<open>.crt\<close> replaced by \<open>.key\<close>, as the controller manager
  block does. The code names the file with \<open>KubeSchedulerArg\<close>, the key of the
  argument map, where the controller manager block uses its default certificate name.
  With the key \<open>kube-scheduler-arg\<close> both instructions delete the same path, which is
  no certificate file: the run below shows the instructions of the composed plan.
\<close>

theorem scheduler_removals_same_path:
  "Instructions (fst (fst (rotateCertificatesPlan examplePlanner exampleDeps 0 cpDue
     exampleSecret rotateScheduler controlPlaneNode ''https://10.0.0.1:9345''))) =
     [\<lparr>Name = ''rotate certificates'', Command = ''sh'',
       Args = [''-xe'',
         ''/var/lib/rancher/rke2/rancher_v2prov_certificate_rotation/bin/rotate.sh'',
         ''rke2'', ''5'', ''-s'', ''scheduler'']\<rparr>,
      \<lparr>Name = ''remove kube-scheduler cert for regeneration'', Command = ''rm'',
       Args = [''-f'', ''/tls/ks/kube-scheduler-arg'']\<rparr>,
      \<lparr>Name = ''remove kube-scheduler key for regeneration'', Command = ''rm'',
       Args = [''-f'', ''/tls/ks/kube-scheduler-arg'']\<rparr>,
      \<lparr>Name = ''remove kube-scheduler static pod manifest'', Command = ''rm'',
       Args = [''-f'', ''/var/lib/rancher/rke2/agent/pod-manifests/kube-scheduler.yaml'']\<rparr>,
      \<lparr>Name = ''restart'', Command = ''systemctl'', Args = [''restart'', ''rke2-server'']\<rparr>]"
  unfolding composed_for_server [OF controlPlaneNode_roles(2) examplePlanner_generate]
  by (simp add: controlPlaneNode_roles(1) example_runtime example_manifestRemoval
      example_kcm_scheduler example_ks_scheduler example_rotateArgs_scheduler example_serverUnit
      rotateInstruction_def restartInstruction_def)

text \<open>
  Claim C6. For a node that is not worker-only, the instructions appended to the base
  plan are, in this order: the instruction that runs the rotation script, the removals
  of the controller manager and scheduler blocks (each an \<open>rm -f\<close>), the manifest
  removal of the RKE2 policy, and the restart of the server service unit, which is the
  last instruction of the plan.
\<close>

theorem rotateCertificatesPlan_order:
  assumes "\<not> isOnlyWorker entry"
    and "generatePlanWithConfigFiles p w controlPlane tokensSecret entry joinServer True
           = ((basePlan, config, joinedServer, None), w')"
    and "runtime = GetRuntime d (KubernetesVersion (Spec controlPlane))"
    and "removals =
           (if isControlPlane entry
            then kcmInstructions d runtime rotation config @
                 ksInstructions d runtime rotation config
            else [])"
  shows "\<exists>plan. rotateCertificatesPlan p d w controlPlane tokensSecret rotation entry joinServer
           = ((plan, joinedServer, None), w') \<and>
         Instructions plan =
           Instructions basePlan @
           [rotateInstruction (rotateArgs d controlPlane rotation)] @
           removals @ manifestRemoval d runtime entry @
           [restartInstruction (GetRuntimeServerUnit d (KubernetesVersion (Spec controlPlane)))] \<and>
         list_all (\<lambda>i. Command i = ''rm'' \<and> take 1 (Args i) = [''-f'']) removals \<and>
         last (Instructions plan) =
           restartInstruction (GetRuntimeServerUnit d (KubernetesVersion (Spec controlPlane)))"
proof -
  have "list_all (\<lambda>i. Command i = ''rm'' \<and> take 1 (Args i) = [''-f''])
          (kcmInstructions d runtime rotation config)"
    by (simp add: kcmInstructions_def Let_def)
  moreover have "list_all (\<lambda>i. Command i = ''rm'' \<and> take 1 (Args i) = [''-f''])
          (ksInstructions d runtime rotation config)"
    by (simp add: ksInstructions_def Let_def)
  ultimately have "list_all (\<lambda>i. Command i = ''rm'' \<and> take 1 (Args i) = [''-f'']) removals"
    using assms(4) by simp
  then show ?thesis
    unfolding composed_for_server [OF assms(1,2)]
    using assms(3,4) by simp
qed

theorem rotateCertificatesPlan_order_witness:
  "\<not> isOnlyWorker controlPlaneNode \<and>
   map Name (Instructions (fst (fst (rotateCertificatesPlan examplePlanner exampleDeps 0 cpDue
     exampleSecret rotateAll controlPlaneNode ''https://10.0.0.1:9345'')))) =
     [''rotate certificates'',
      ''remove kube-controller-manager cert for regeneration'',
      ''remove kube-controller-manager key for regeneration'',
      ''remove kube-controller-manager static pod manifest'',
      ''remove kube-scheduler cert for regeneration'',
      ''remove kube-scheduler key for regeneration'',
      ''remove kube-scheduler static pod manifest'',
      ''restart'']"
proof -
  note t = rotateCertificatesPlan_order [OF controlPlaneNode_roles(2) examplePlanner_generate
      refl refl, where d = exampleDeps and rotation = rotateAll and controlPlane = cpDue
      and w = 0 and tokensSecret = exampleSecret and joinServer = "''https://10.0.0.1:9345''"]
  from t have
    "map Name (Instructions (fst (fst (rotateCertificatesPlan examplePlanner exampleDeps 0 cpDue
       exampleSecret rotateAll controlPlaneNode ''https://10.0.0.1:9345'')))) =
     [''rotate certificates'',
      ''remove kube-controller-manager cert for regeneration'',
      ''remove kube-controller-manager key for regeneration'',
      ''remove kube-controller-manager static pod manifest'',
      ''remove kube-scheduler cert for regeneration'',
      ''remove kube-scheduler key for regeneration'',
      ''remove kube-scheduler static pod manifest'',
      ''restart'']"
    by (auto simp: controlPlaneNode_roles(1) example_runtime example_manifestRemoval
        example_kcm example_ks rotateInstruction_def restartInstruction_def)
  with controlPlaneNode_roles(2) show ?thesis by simp
qed

subsection \<open>Orchestrator\<close>

text \<open>What the loop over the nodes returns, and the paths of \<open>rotateCertificates\<close>.\<close>

lemma rotateNodes_result:
  "rotateNodes p d cp ts rot js nodes w = (r, w', evs) \<Longrightarrow>
     (r = None \<longrightarrow>
        list_all succeededDispatch evs \<and>
        map dispatchedNode evs = map Some (filter (shouldRotateEntry rot) nodes)) \<and>
     (\<forall>e. r = Some e \<longrightarrow>
        (\<exists>pre. list_all succeededDispatch pre \<and>
           length pre < length (filter (shouldRotateEntry rot) nodes) \<and>
           (evs = pre \<or>
            (\<exists>description node nodePlan joined e1 pauseErr.
               evs = pre @ [Assigned description node nodePlan joined (Some e1),
                            Paused True pauseErr] \<and>
               e = (case pauseErr of None \<Rightarrow> e1 | Some pe \<Rightarrow> pe)))))"
proof (induction nodes arbitrary: w r w' evs)
  case Nil
  then show ?case by simp
next
  case (Cons node nodes)
  show ?case
  proof (cases "shouldRotateEntry rot node")
    case False
    with Cons.prems have "rotateNodes p d cp ts rot js nodes w = (r, w', evs)" by simp
    from Cons.IH [OF this] False show ?thesis by simp
  next
    case True
    obtain rotatePlan joinedServer cerr w1 where
      comp: "rotateCertificatesPlan p d w cp ts rot node js = ((rotatePlan, joinedServer, cerr), w1)"
      by (cases "rotateCertificatesPlan p d w cp ts rot node js") (auto elim: prod_cases3)
    show ?thesis
    proof (cases cerr)
      case (Some e)
      with Cons.prems True comp have "r = Some e" "evs = []" by simp_all
      with True show ?thesis by (auto intro: exI [where x = "[]"])
    next
      case None
      obtain aerr w2 where
        asg: "assignAndCheckPlan p w1 (''['' @ MachineName node @ ''] certificate rotation'')
                node rotatePlan joinedServer 0 0 = (aerr, w2)"
        by (rule prod.exhaust)
      show ?thesis
      proof (cases aerr)
        case (Some e1)
        obtain pauseErr w3 where ps: "pauseCAPICluster p w2 cp True = (pauseErr, w3)"
          by (rule prod.exhaust)
        from Cons.prems True comp None asg Some ps
        have "evs = [] @ [Assigned (''['' @ MachineName node @ ''] certificate rotation'') node
                       rotatePlan joinedServer (Some e1), Paused True pauseErr]"
          and "r = Some (case pauseErr of None \<Rightarrow> e1 | Some pe \<Rightarrow> pe)"
          by (auto simp: Let_def split: option.splits)
        with True show ?thesis
          by (auto intro!: exI [where x = "[]"])
      next
        case aNone: None
        obtain r2 w3 evs2 where rec: "rotateNodes p d cp ts rot js nodes w2 = (r2, w3, evs2)"
          by (rule prod_cases3)
        from Cons.prems True comp None asg aNone rec
        have r: "r = r2"
          and evs: "evs = Assigned (''['' @ MachineName node @ ''] certificate rotation'') node
                       rotatePlan joinedServer None # evs2"
          by (auto simp: Let_def)
        note ih = Cons.IH [OF rec]
        show ?thesis
        proof (cases r2)
          case None
          with ih r evs True show ?thesis by simp
        next
          case (Some e)
          with ih obtain pre where
            pre: "list_all succeededDispatch pre"
              "length pre < length (filter (shouldRotateEntry rot) nodes)"
              "evs2 = pre \<or>
                (\<exists>description node nodePlan joined e1 pauseErr.
                   evs2 = pre @ [Assigned description node nodePlan joined (Some e1),
                                 Paused True pauseErr] \<and>
                   e = (case pauseErr of None \<Rightarrow> e1 | Some pe \<Rightarrow> pe))"
            by auto
          let ?pre = "Assigned (''['' @ MachineName node @ ''] certificate rotation'') node
                       rotatePlan joinedServer None # pre"
          have "list_all succeededDispatch ?pre" using pre(1) by simp
          moreover have "length ?pre < length (filter (shouldRotateEntry rot) (node # nodes))"
            using pre(2) True by simp
          moreover have "evs = ?pre \<or>
                (\<exists>description node nodePlan joined e1 pauseErr.
                   evs = ?pre @ [Assigned description node nodePlan joined (Some e1),
                                 Paused True pauseErr] \<and>
                   e = (case pauseErr of None \<Rightarrow> e1 | Some pe \<Rightarrow> pe))"
            using pre(3) evs by auto
          ultimately have "\<exists>pre0. list_all succeededDispatch pre0 \<and>
              length pre0 < length (filter (shouldRotateEntry rot) (node # nodes)) \<and>
              (evs = pre0 \<or>
                (\<exists>description node nodePlan joined e1 pauseErr.
                   evs = pre0 @ [Assigned description node nodePlan joined (Some e1),
                                 Paused True pauseErr] \<and>
                   e = (case pauseErr of None \<Rightarrow> e1 | Some pe \<Rightarrow> pe)))"
            by (intro exI [of _ ?pre] conjI)
          with r Some show ?thesis by (simp del: filter.simps)
        qed
      qed
    qed
  qed
qed

lemma succeeded_not_failed:
  "list_all succeededDispatch xs \<Longrightarrow> Assigned a b c f (Some e) \<notin> set xs"
  by (auto simp: list_all_iff)


lemma filter_succeeded_id: "list_all succeededDispatch xs \<Longrightarrow> filter succeededDispatch xs = xs"
  by (induction xs) auto

lemma shouldRotate_request:
  "shouldRotate cp \<Longrightarrow> \<exists>rotation. SpecRotateCertificates (Spec cp) = Some rotation"
  by (auto simp: shouldRotate_def split: option.splits)

lemma rotateCertificates_idle:
  assumes "rotateCertificates p d cp status ts clusterPlan w = ((status', err), w', evs)"
    and "\<not> shouldRotate cp"
  shows "status' = status \<and> err = None \<and> evs = [] \<and> w' = w"
  using assms by (simp add: rotateCertificates_def)

lemma rotateCertificates_lookup:
  assumes "rotateCertificates p d cp status ts clusterPlan w = ((status', err), w', evs)"
    and "shouldRotate cp"
    and "findInitNode p w cp clusterPlan = ((found, joinServer, lookupErr), w1)"
    and "lookupErr \<noteq> None \<or> \<not> found \<or> joinServer = ''''"
  shows "status' = status \<and> err = lookupErr \<and> evs = [] \<and> w' = w1"
  using assms shouldRotate_request [OF assms(2)]
  by (auto simp: rotateCertificates_def split: option.splits)

lemma rotateCertificates_loop:
  assumes "rotateCertificates p d cp status ts clusterPlan w = ((status', err), w', evs)"
    and "shouldRotate cp"
    and "SpecRotateCertificates (Spec cp) = Some rotation"
    and "findInitNode p w cp clusterPlan = ((True, joinServer, None), w1)"
    and "joinServer \<noteq> ''''"
    and "rotateNodes p d cp ts rotation joinServer (collect d clusterPlan (anyRole d)) w1
           = (loopErr, w2, loopEvs)"
    and "pauseCAPICluster p w2 cp False = (unpauseErr, w3)"
  shows "(\<forall>e. loopErr = Some e \<longrightarrow> status' = status \<and> err = Some e \<and> evs = loopEvs) \<and>
         (loopErr = None \<longrightarrow> evs = loopEvs @ [Paused False unpauseErr] \<and>
            (unpauseErr = None \<longrightarrow>
               status' = status\<lparr>CertificateRotationGeneration := Generation rotation\<rparr> \<and>
               err = Some (errWaiting ''certificate rotation done'')) \<and>
            (unpauseErr \<noteq> None \<longrightarrow>
               status' = status \<and> err = Some (errWaiting ''unpausing CAPI cluster'')))"
  using assms by (auto simp: rotateCertificates_def split: option.splits)

text \<open>The runs of the sample planners on the sample cluster.\<close>

lemma rotateCertificatesPlan_same_generator:
  "generatePlanWithConfigFiles p = generatePlanWithConfigFiles q \<Longrightarrow>
   rotateCertificatesPlan p d w cp ts rot node js = rotateCertificatesPlan q d w cp ts rot node js"
  by (simp add: rotateCertificatesPlan_def)

lemma example_generators:
  "generatePlanWithConfigFiles failingPlanner = generatePlanWithConfigFiles examplePlanner"
  "generatePlanWithConfigFiles stuckPlanner = generatePlanWithConfigFiles examplePlanner"
  by (simp_all add: failingPlanner_def stuckPlanner_def)

lemma example_plannedFor:
  "\<not> isOnlyWorker node \<Longrightarrow>
   rotateCertificatesPlan examplePlanner exampleDeps w cpDue exampleSecret rotateEtcd node
     exampleJoinServer = ((plannedFor node, exampleJoinServer, None), w)"
  by (simp add: plannedFor_def rotateCertificatesPlan_def examplePlanner_generate Let_def)

lemma example_roles:
  "\<not> isOnlyWorker etcdNode" "\<not> isOnlyWorker etcdWorkerNode" "\<not> isOnlyWorker etcdNode2"
  by (simp_all add: isOnlyWorker_def isEtcd_def etcdNode_def etcdWorkerNode_def etcdNode2_def)

lemma example_eligible:
  "shouldRotateEntry rotateEtcd etcdNode" "\<not> shouldRotateEntry rotateEtcd workerNode"
  "shouldRotateEntry rotateEtcd etcdWorkerNode" "shouldRotateEntry rotateEtcd etcdNode2"
  by (simp_all add: shouldRotateEntry_def rotateEtcd_def relevantServices_spec
      specRelevantSet_def isWorker_def isControlPlane_def isEtcd_def workerServices_def
      etcdServices_def etcdNode_def workerNode_def etcdWorkerNode_def etcdNode2_def)

lemma example_names:
  "MachineName etcdNode = ''e1''" "MachineName etcdWorkerNode = ''ew1''"
  "MachineName etcdNode2 = ''e2''"
  by (simp_all add: etcdNode_def etcdWorkerNode_def etcdNode2_def)

lemma example_collect:
  "collect exampleDeps exampleCluster (anyRole exampleDeps) = exampleCluster"
  by (simp add: exampleDeps_def)

lemma example_eligible_nodes:
  "filter (shouldRotateEntry rotateEtcd) exampleCluster = [etcdNode, etcdWorkerNode, etcdNode2]"
  by (simp add: exampleCluster_def example_eligible)

lemma example_request: "SpecRotateCertificates (Spec cpDue) = Some rotateEtcd"
  by (simp add: cpDue_def rotateEtcd_def)

lemma example_generation: "Generation rotateEtcd = 5"
  by (simp add: rotateEtcd_def)

lemma example_due: "shouldRotate cpDue"
  by (simp add: shouldRotate_def cpDue_def)

lemma example_lookup:
  "findInitNode examplePlanner w cp clusterPlan = ((True, exampleJoinServer, None), w)"
  "findInitNode failingPlanner w cp clusterPlan = ((True, exampleJoinServer, None), w)"
  "findInitNode stuckPlanner w cp clusterPlan = ((True, exampleJoinServer, None), w)"
  by (simp_all add: examplePlanner_def failingPlanner_def stuckPlanner_def exampleJoinServer_def)

lemma example_assign:
  "assignAndCheckPlan examplePlanner w description entry nodePlan joined a b = (None, Suc w)"
  "assignAndCheckPlan stuckPlanner w description entry nodePlan joined a b = (None, Suc w)"
  "assignAndCheckPlan failingPlanner w description entry nodePlan joined a b
     = (if w = 1 then Some (errOther ''plan failed'') else None, Suc w)"
  by (simp_all add: examplePlanner_def failingPlanner_def stuckPlanner_def)

lemma example_pause:
  "pauseCAPICluster examplePlanner w cp paused = (None, w)"
  "pauseCAPICluster failingPlanner w cp paused = (None, w)"
  "pauseCAPICluster stuckPlanner w cp paused
     = (if paused then None else Some (errOther ''cannot unpause''), w)"
  by (simp_all add: examplePlanner_def failingPlanner_def stuckPlanner_def)

lemma example_joinServer: "exampleJoinServer \<noteq> ''''"
  by (simp add: exampleJoinServer_def)

lemma example_loop:
  "rotateNodes examplePlanner exampleDeps cpDue exampleSecret rotateEtcd exampleJoinServer
     exampleCluster 0 =
   (None, 3,
    [Assigned ''[e1] certificate rotation'' etcdNode (plannedFor etcdNode) exampleJoinServer None,
     Assigned ''[ew1] certificate rotation'' etcdWorkerNode (plannedFor etcdWorkerNode)
       exampleJoinServer None,
     Assigned ''[e2] certificate rotation'' etcdNode2 (plannedFor etcdNode2) exampleJoinServer
       None])"
  by (simp add: exampleCluster_def example_eligible example_plannedFor example_roles
      example_names example_assign Let_def eval_nat_numeral)

lemma stuck_loop:
  "rotateNodes stuckPlanner exampleDeps cpDue exampleSecret rotateEtcd exampleJoinServer
     exampleCluster 0 =
   (None, 3,
    [Assigned ''[e1] certificate rotation'' etcdNode (plannedFor etcdNode) exampleJoinServer None,
     Assigned ''[ew1] certificate rotation'' etcdWorkerNode (plannedFor etcdWorkerNode)
       exampleJoinServer None,
     Assigned ''[e2] certificate rotation'' etcdNode2 (plannedFor etcdNode2) exampleJoinServer
       None])"
  by (simp add: exampleCluster_def example_eligible example_plannedFor example_roles
      example_names example_assign Let_def eval_nat_numeral
      rotateCertificatesPlan_same_generator [OF example_generators(2)])

lemma failing_loop:
  "rotateNodes failingPlanner exampleDeps cpDue exampleSecret rotateEtcd exampleJoinServer
     exampleCluster 0 =
   (Some (errOther ''plan failed''), 2,
    [Assigned ''[e1] certificate rotation'' etcdNode (plannedFor etcdNode) exampleJoinServer None,
     Assigned ''[ew1] certificate rotation'' etcdWorkerNode (plannedFor etcdWorkerNode)
       exampleJoinServer (Some (errOther ''plan failed'')),
     Paused True None])"
  by (simp add: exampleCluster_def example_eligible example_plannedFor example_roles
      example_names example_assign example_pause Let_def eval_nat_numeral
      rotateCertificatesPlan_same_generator [OF example_generators(1)])

lemma example_run:
  "rotateCertificates examplePlanner exampleDeps cpDue statusAt4 exampleSecret exampleCluster 0 =
   ((statusAt4\<lparr>CertificateRotationGeneration := 5\<rparr>,
     Some (errWaiting ''certificate rotation done'')), 3,
    [Assigned ''[e1] certificate rotation'' etcdNode (plannedFor etcdNode) exampleJoinServer None,
     Assigned ''[ew1] certificate rotation'' etcdWorkerNode (plannedFor etcdWorkerNode)
       exampleJoinServer None,
     Assigned ''[e2] certificate rotation'' etcdNode2 (plannedFor etcdNode2) exampleJoinServer
       None,
     Paused False None])"
  by (simp add: rotateCertificates_def example_due example_request example_lookup
      example_joinServer example_collect example_loop example_pause example_generation)

lemma stuck_run:
  "rotateCertificates stuckPlanner exampleDeps cpDue statusAt4 exampleSecret exampleCluster 0 =
   ((statusAt4, Some (errWaiting ''unpausing CAPI cluster'')), 3,
    [Assigned ''[e1] certificate rotation'' etcdNode (plannedFor etcdNode) exampleJoinServer None,
     Assigned ''[ew1] certificate rotation'' etcdWorkerNode (plannedFor etcdWorkerNode)
       exampleJoinServer None,
     Assigned ''[e2] certificate rotation'' etcdNode2 (plannedFor etcdNode2) exampleJoinServer
       None,
     Paused False (Some (errOther ''cannot unpause''))])"
  by (simp add: rotateCertificates_def example_due example_request example_lookup
      example_joinServer example_collect stuck_loop example_pause)

lemma failing_run:
  "rotateCertificates failingPlanner exampleDeps cpDue statusAt4 exampleSecret exampleCluster 0 =
   ((statusAt4, Some (errOther ''plan failed'')), 2,
    [Assigned ''[e1] certificate rotation'' etcdNode (plannedFor etcdNode) exampleJoinServer None,
     Assigned ''[ew1] certificate rotation'' etcdWorkerNode (plannedFor etcdWorkerNode)
       exampleJoinServer (Some (errOther ''plan failed'')),
     Paused True None])"
  by (simp add: rotateCertificates_def example_due example_request example_lookup
      example_joinServer example_collect failing_loop)

text \<open>
  Claim C7. Whenever the dispatch of a plan to a node fails, the pause of the CAPI
  cluster is requested (with true) right after it and is the last action of the call: no
  plan is dispatched to a later node. Every dispatch before it succeeded. The call
  returns the dispatch error, unless the pause itself fails, and then it returns the
  pause error; the status is returned as it came.
\<close>

theorem rotateCertificates_dispatch_failure:
  assumes "rotateCertificates p d cp status ts clusterPlan w = ((status', err), w', evs)"
    and "Assigned description node nodePlan joined (Some e) \<in> set evs"
  shows "\<exists>pre pauseErr.
           evs = pre @ [Assigned description node nodePlan joined (Some e), Paused True pauseErr] \<and>
           list_all succeededDispatch pre \<and>
           err = Some (case pauseErr of None \<Rightarrow> e | Some pauseError \<Rightarrow> pauseError) \<and>
           status' = status"
proof -
  have due: "shouldRotate cp"
  proof (rule ccontr)
    assume "\<not> shouldRotate cp"
    from rotateCertificates_idle [OF assms(1) this] assms(2) show False by simp
  qed
  then obtain rotation where rot: "SpecRotateCertificates (Spec cp) = Some rotation"
    using shouldRotate_request by blast
  obtain found joinServer lookupErr w1 where
    look: "findInitNode p w cp clusterPlan = ((found, joinServer, lookupErr), w1)"
    by (cases "findInitNode p w cp clusterPlan") (auto elim: prod_cases3)
  have "\<not> (lookupErr \<noteq> None \<or> \<not> found \<or> joinServer = '''')"
  proof
    assume "lookupErr \<noteq> None \<or> \<not> found \<or> joinServer = ''''"
    from rotateCertificates_lookup [OF assms(1) due look this] assms(2) show False by simp
  qed
  then have ok: "lookupErr = None" "found = True" "joinServer \<noteq> ''''" by simp_all
  obtain loopErr w2 loopEvs where
    loop: "rotateNodes p d cp ts rotation joinServer (collect d clusterPlan (anyRole d)) w1
             = (loopErr, w2, loopEvs)"
    by (rule prod_cases3)
  obtain unpauseErr w3 where unp: "pauseCAPICluster p w2 cp False = (unpauseErr, w3)"
    by (rule prod.exhaust)
  note paths = rotateCertificates_loop
    [OF assms(1) due rot look [unfolded ok(1) ok(2)] ok(3) loop unp]
  note res = rotateNodes_result [OF loop]
  show ?thesis
  proof (cases loopErr)
    case None
    with res have "list_all succeededDispatch loopEvs" by simp
    moreover from None paths have "evs = loopEvs @ [Paused False unpauseErr]"
      by simp
    ultimately have False using assms(2) succeeded_not_failed by fastforce
    then show ?thesis ..
  next
    case (Some e0)
    with paths have same: "status' = status" "err = Some e0" "evs = loopEvs"
      by simp_all
    from res Some obtain pre where
      pre: "list_all succeededDispatch pre"
        "loopEvs = pre \<or>
          (\<exists>description node nodePlan joined e1 pauseErr.
             loopEvs = pre @ [Assigned description node nodePlan joined (Some e1),
                              Paused True pauseErr] \<and>
             e0 = (case pauseErr of None \<Rightarrow> e1 | Some pe \<Rightarrow> pe))"
      by auto
    from pre(1) have nf: "Assigned description node nodePlan joined (Some e) \<notin> set pre"
      by (rule succeeded_not_failed)
    with assms(2) same(3) pre(2) obtain description1 node1 nodePlan1 joined1 e1 pauseErr where
      dec: "loopEvs = pre @ [Assigned description1 node1 nodePlan1 joined1 (Some e1),
                             Paused True pauseErr]"
        "e0 = (case pauseErr of None \<Rightarrow> e1 | Some pe \<Rightarrow> pe)"
      by auto
    with assms(2) same(3) nf have
      "Assigned description node nodePlan joined (Some e)
         = Assigned description1 node1 nodePlan1 joined1 (Some e1)"
      by auto
    with dec same pre(1) show ?thesis by auto
  qed
qed

theorem rotateCertificates_dispatch_failure_witness:
  "Assigned ''[ew1] certificate rotation'' etcdWorkerNode (plannedFor etcdWorkerNode)
     exampleJoinServer (Some (errOther ''plan failed''))
     \<in> set (snd (snd (rotateCertificates failingPlanner exampleDeps cpDue statusAt4
           exampleSecret exampleCluster 0))) \<and>
   (\<exists>pre pauseErr.
      snd (snd (rotateCertificates failingPlanner exampleDeps cpDue statusAt4 exampleSecret
        exampleCluster 0)) =
        pre @ [Assigned ''[ew1] certificate rotation'' etcdWorkerNode (plannedFor etcdWorkerNode)
                 exampleJoinServer (Some (errOther ''plan failed'')),
               Paused True pauseErr] \<and>
      list_all succeededDispatch pre \<and>
      snd (fst (rotateCertificates failingPlanner exampleDeps cpDue statusAt4 exampleSecret
        exampleCluster 0)) =
        Some (case pauseErr of None \<Rightarrow> errOther ''plan failed'' | Some pauseError \<Rightarrow> pauseError) \<and>
      fst (fst (rotateCertificates failingPlanner exampleDeps cpDue statusAt4 exampleSecret
        exampleCluster 0)) = statusAt4)"
proof -
  let ?run = "rotateCertificates failingPlanner exampleDeps cpDue statusAt4 exampleSecret
                exampleCluster 0"
  have run: "?run = ((fst (fst ?run), snd (fst ?run)), fst (snd ?run), snd (snd ?run))"
    by simp
  have mem: "Assigned ''[ew1] certificate rotation'' etcdWorkerNode (plannedFor etcdWorkerNode)
               exampleJoinServer (Some (errOther ''plan failed'')) \<in> set (snd (snd ?run))"
    by (simp add: failing_run)
  from rotateCertificates_dispatch_failure [OF run mem] mem show ?thesis by blast
qed

text \<open>
  Claim C8, as amended. When rotation is due, an init node with a non-empty join address
  is found, and the nodes dispatched with success are exactly the eligible nodes, the
  last action of \<open>rotateCertificates\<close> is the request to unpause the CAPI cluster and
  the call returns an \<open>errWaiting\<close> value. When the unpause succeeds, the returned
  status holds the requested generation and the error is
  \<open>errWaiting "certificate rotation done"\<close>; when it fails, the status is returned as
  it came and the error is \<open>errWaiting "unpausing CAPI cluster"\<close>.
\<close>

theorem rotateCertificates_converged:
  assumes "rotateCertificates p d cp status ts clusterPlan w = ((status', err), w', evs)"
    and "shouldRotate cp"
    and "SpecRotateCertificates (Spec cp) = Some rotation"
    and "findInitNode p w cp clusterPlan = ((True, joinServer, None), w1)"
    and "joinServer \<noteq> ''''"
    and "map dispatchedNode (filter succeededDispatch evs) =
           map Some (filter (shouldRotateEntry rotation) (collect d clusterPlan (anyRole d)))"
  shows "\<exists>pre unpauseErr.
           evs = pre @ [Paused False unpauseErr] \<and>
           list_all succeededDispatch pre \<and>
           (\<exists>message. err = Some (errWaiting message)) \<and>
           (unpauseErr = None \<longrightarrow>
              status' = status\<lparr>CertificateRotationGeneration := Generation rotation\<rparr> \<and>
              err = Some (errWaiting ''certificate rotation done'')) \<and>
           (unpauseErr \<noteq> None \<longrightarrow>
              status' = status \<and> err = Some (errWaiting ''unpausing CAPI cluster''))"
proof -
  obtain loopErr w2 loopEvs where
    loop: "rotateNodes p d cp ts rotation joinServer (collect d clusterPlan (anyRole d)) w1
             = (loopErr, w2, loopEvs)"
    by (rule prod_cases3)
  obtain unpauseErr w3 where unp: "pauseCAPICluster p w2 cp False = (unpauseErr, w3)"
    by (rule prod.exhaust)
  note paths = rotateCertificates_loop [OF assms(1-5) loop unp]
  note res = rotateNodes_result [OF loop]
  have "loopErr = None"
  proof (rule ccontr)
    assume "loopErr \<noteq> None"
    then obtain e0 where Some: "loopErr = Some e0" by auto
    with paths have same: "evs = loopEvs" by simp
    from res Some obtain pre where
      pre: "list_all succeededDispatch pre"
        "length pre < length (filter (shouldRotateEntry rotation)
            (collect d clusterPlan (anyRole d)))"
        "loopEvs = pre \<or>
          (\<exists>description node nodePlan joined e1 pauseErr.
             loopEvs = pre @ [Assigned description node nodePlan joined (Some e1),
                              Paused True pauseErr])"
      by auto
    from pre(1,3) have "filter succeededDispatch loopEvs = pre"
      by (auto simp: filter_succeeded_id)
    with same assms(6) have "length pre = length (filter (shouldRotateEntry rotation)
            (collect d clusterPlan (anyRole d)))"
      by (metis length_map)
    with pre(2) show False by simp
  qed
  with paths res show ?thesis by (cases unpauseErr) auto
qed

theorem rotateCertificates_converged_witness:
  "shouldRotate cpDue \<and>
   map dispatchedNode (filter succeededDispatch
     (snd (snd (rotateCertificates examplePlanner exampleDeps cpDue statusAt4 exampleSecret
        exampleCluster 0)))) =
     map Some (filter (shouldRotateEntry rotateEtcd)
       (collect exampleDeps exampleCluster (anyRole exampleDeps))) \<and>
   fst (fst (rotateCertificates examplePlanner exampleDeps cpDue statusAt4 exampleSecret
     exampleCluster 0)) = statusAt4\<lparr>CertificateRotationGeneration := 5\<rparr> \<and>
   snd (fst (rotateCertificates examplePlanner exampleDeps cpDue statusAt4 exampleSecret
     exampleCluster 0)) = Some (errWaiting ''certificate rotation done'')"
proof -
  let ?run = "rotateCertificates examplePlanner exampleDeps cpDue statusAt4 exampleSecret
                exampleCluster 0"
  have run: "?run = ((fst (fst ?run), snd (fst ?run)), fst (snd ?run), snd (snd ?run))"
    by simp
  have all: "map dispatchedNode (filter succeededDispatch (snd (snd ?run))) =
     map Some (filter (shouldRotateEntry rotateEtcd)
       (collect exampleDeps exampleCluster (anyRole exampleDeps)))"
    by (simp add: example_run example_collect example_eligible_nodes)
  from rotateCertificates_converged
    [OF run example_due example_request example_lookup(1) example_joinServer all]
  obtain pre unpauseErr where
    evs: "snd (snd ?run) = pre @ [Paused False unpauseErr]"
    and ok: "unpauseErr = None \<longrightarrow>
       fst (fst ?run) = statusAt4\<lparr>CertificateRotationGeneration := Generation rotateEtcd\<rparr> \<and>
       snd (fst ?run) = Some (errWaiting ''certificate rotation done'')"
    by blast
  from evs have "last (snd (snd ?run)) = Paused False unpauseErr" by simp
  then have "unpauseErr = None" by (simp add: example_run)
  with ok all example_due show ?thesis by (simp add: example_generation)
qed

text \<open>
  The status does not advance on every run in which all dispatches succeed: with a
  planner that cannot unpause the CAPI cluster, rotation is due, the three eligible
  nodes are dispatched with success, the unpause is requested and fails, and the
  returned generation is still 4, not the requested 5.
\<close>

theorem rotateCertificates_unpause_failure:
  "shouldRotate cpDue \<and>
   SpecRotateCertificates (Spec cpDue) = Some rotateEtcd \<and>
   map dispatchedNode (filter succeededDispatch
     (snd (snd (rotateCertificates stuckPlanner exampleDeps cpDue statusAt4 exampleSecret
        exampleCluster 0)))) =
     map Some (filter (shouldRotateEntry rotateEtcd)
       (collect exampleDeps exampleCluster (anyRole exampleDeps))) \<and>
   last (snd (snd (rotateCertificates stuckPlanner exampleDeps cpDue statusAt4 exampleSecret
     exampleCluster 0))) = Paused False (Some (errOther ''cannot unpause'')) \<and>
   CertificateRotationGeneration
     (fst (fst (rotateCertificates stuckPlanner exampleDeps cpDue statusAt4 exampleSecret
        exampleCluster 0))) \<noteq> Generation rotateEtcd"
proof -
  have "CertificateRotationGeneration statusAt4 \<noteq> Generation rotateEtcd"
    by (simp add: statusAt4_def rotateEtcd_def)
  then show ?thesis
    by (simp add: stuck_run example_due example_request example_collect example_eligible_nodes)
qed



end
